theory Spec2Isabelle
  imports Main "HOL-Library.Sublist" "HOL-Library.Log_Nat" "HOL-Library.AList"
begin

section \<open>JavaScript values used by the analysis\<close>

text \<open>
  Strings are lists of 8-bit characters, read as the code units U+0000 to U+00FF: the
  model covers pages and URLs written in Latin-1. \<open>length\<close> is the number of code units,
  as \<open>String.prototype.length\<close> is.
\<close>

text \<open>\<open>String.prototype.startsWith\<close>.\<close>

fun startsWith :: "string \<Rightarrow> string \<Rightarrow> bool" where
  "startsWith s [] = True"
| "startsWith [] (p # ps) = False"
| "startsWith (c # cs) (p # ps) = (c = p \<and> startsWith cs ps)"

text \<open>\<open>String.prototype.includes\<close>: the needle is tried at every position, left to right.\<close>

fun str_includes :: "string \<Rightarrow> string \<Rightarrow> bool" where
  "str_includes [] p = startsWith [] p"
| "str_includes (c # cs) p = (startsWith (c # cs) p \<or> str_includes cs p)"

text \<open>
  \<open>String.prototype.toLowerCase\<close> on the Latin-1 range: A to Z and the accented
  capitals U+00C0 to U+00DE (the multiplication sign U+00D7 apart) move up by 32.
\<close>

definition lower_char :: "char \<Rightarrow> char" where
  "lower_char c =
     (let n = (of_char c :: nat)
      in if (65 \<le> n \<and> n \<le> 90) \<or> (192 \<le> n \<and> n \<le> 222 \<and> n \<noteq> 215)
         then char_of (n + 32) else c)"

definition toLowerCase :: "string \<Rightarrow> string" where
  "toLowerCase s = map lower_char s"

text \<open>
  The class \<open>\s\<close> of a JavaScript regular expression, on the Latin-1 range: tab, line
  feed, vertical tab, form feed, carriage return, space and the no-break space.
\<close>

definition is_space :: "char \<Rightarrow> bool" where
  "is_space c = (let n = (of_char c :: nat) in (9 \<le> n \<and> n \<le> 13) \<or> n = 32 \<or> n = 160)"

text \<open>The class \<open>[a-z]\<close>.\<close>

definition is_az :: "char \<Rightarrow> bool" where
  "is_az c = (let n = (of_char c :: nat) in 97 \<le> n \<and> n \<le> 122)"


text \<open>
  \<open>s || d\<close> for an attribute or a string that may be missing: \<open>undefined\<close> and the empty
  string are both falsy.
\<close>

definition or_else :: "string option \<Rightarrow> string \<Rightarrow> string" where
  "or_else v d = (case v of None \<Rightarrow> d | Some s \<Rightarrow> if s = [] then d else s)"

text \<open>\<open>Array.prototype.join\<close> with a separator.\<close>

fun join :: "string \<Rightarrow> string list \<Rightarrow> string" where
  "join sep [] = []"
| "join sep [x] = x"
| "join sep (x # y # ys) = x @ sep @ join sep (y # ys)"

subsection \<open>Numbers\<close>

text \<open>
  A JavaScript number is a binary64 value. The analysis only divides counts and scales
  the quotient by 100, so the values that occur are NaN (from \<open>0 / 0\<close>), positive
  infinity (from \<open>n / 0\<close>) and finite values, kept as the exact rational a double
  stands for.
\<close>

datatype jsnum = NaN | Infinity | Num rat

text \<open>
  Rounding of a rational to the nearest double, ties to even, 53 bits of precision.
  The exponent range is not modelled: the magnitudes that occur lie between
  \<open>2\<^sup>-\<^sup>3\<^sup>2\<close> and \<open>100\<close>, an array having fewer than \<open>2\<^sup>3\<^sup>2\<close> elements.
\<close>

definition pow2 :: "int \<Rightarrow> rat" where
  "pow2 k = (if 0 \<le> k then 2 ^ nat k else 1 / 2 ^ nat (- k))"

definition round_even :: "rat \<Rightarrow> int" where
  "round_even x =
     (let f = \<lfloor>x\<rfloor>; d = x - of_int f
      in if d < 1 / 2 then f else if 1 / 2 < d then f + 1 else if even f then f else f + 1)"

definition ilog2 :: "rat \<Rightarrow> int" where
  "ilog2 x =
     (let (p, q) = quotient_of x;
          k = int (floorlog 2 (nat p)) - int (floorlog 2 (nat q))
      in if pow2 k \<le> x then k else k - 1)"

definition binary64 :: "rat \<Rightarrow> rat" where
  "binary64 x =
     (if x = 0 then 0
      else let a = \<bar>x\<bar>; e = ilog2 a - 52; m = round_even (a / pow2 e)
           in (if x < 0 then - 1 else 1) * of_int m * pow2 e)"

text \<open>\<open>a / b\<close> for two counts.\<close>

definition js_div :: "nat \<Rightarrow> nat \<Rightarrow> jsnum" where
  "js_div a b =
     (if b = 0 then (if a = 0 then NaN else Infinity)
      else Num (binary64 (of_nat a / of_nat b)))"

text \<open>\<open>x * 100\<close>.\<close>

definition times100 :: "jsnum \<Rightarrow> jsnum" where
  "times100 x = (case x of NaN \<Rightarrow> NaN | Infinity \<Rightarrow> Infinity | Num r \<Rightarrow> Num (binary64 (r * 100)))"

text \<open>\<open>Math.round\<close>: the nearest integer, a tie going up; NaN and infinity are kept.\<close>

definition Math_round :: "jsnum \<Rightarrow> jsnum" where
  "Math_round x =
     (case x of NaN \<Rightarrow> NaN | Infinity \<Rightarrow> Infinity | Num r \<Rightarrow> Num (of_int \<lfloor>r + 1 / 2\<rfloor>))"

text \<open>\<open>x || 0\<close>: NaN and zero are falsy.\<close>

definition or_zero :: "jsnum \<Rightarrow> jsnum" where
  "or_zero x = (case x of NaN \<Rightarrow> Num 0 | Infinity \<Rightarrow> Infinity | Num r \<Rightarrow> Num r)"

text \<open>Decimal digits of a natural number.\<close>

fun decimal :: "nat \<Rightarrow> string" where
  "decimal n =
     (if n < 10 then [char_of (48 + n)]
      else decimal (n div 10) @ [char_of (48 + n mod 10)])"

text \<open>
  \<open>Number.prototype.toFixed(1)\<close>: NaN and infinity print by name; a finite value prints
  the integer \<open>n\<close> with \<open>n / 10\<close> nearest to it (the larger of two), as digits with one
  decimal, after a minus sign for a negative value. Values from \<open>10\<^sup>2\<^sup>1\<close> on print
  differently and do not occur.
\<close>

definition toFixed1 :: "jsnum \<Rightarrow> string" where
  "toFixed1 x =
     (case x of
        NaN \<Rightarrow> ''NaN''
      | Infinity \<Rightarrow> ''Infinity''
      | Num r \<Rightarrow>
          (let a = \<bar>r\<bar>; n = nat \<lfloor>a * 10 + 1 / 2\<rfloor>
           in (if r < 0 then ''-'' else []) @ decimal (n div 10) @ ''.'' @ decimal (n mod 10)))"

section \<open>The parsed page\<close>

text \<open>
  \<open>cheerio.load\<close> turns the fetched HTML into a tree of nodes. An element has a tag
  name (lower case, as the HTML parser leaves it), its attributes (each name once) and
  its children in document order.
\<close>

datatype node =
    Element string "(string \<times> string) list" "node list"
  | TextNode string
  | Comment string

type_synonym document = "node list"

fun tag :: "node \<Rightarrow> string" where
  "tag (Element t as cs) = t"
| "tag (TextNode s) = []"
| "tag (Comment s) = []"

text \<open>\<open>$(el).attr(name)\<close>: the attribute's value, \<open>undefined\<close> when the element has none.\<close>

fun attr :: "node \<Rightarrow> string \<Rightarrow> string option" where
  "attr (Element t as cs) name = map_of as name"
| "attr (TextNode s) name = None"
| "attr (Comment s) name = None"

text \<open>Every element of a subtree, in document order (the node itself first).\<close>

fun elements :: "node \<Rightarrow> node list" where
  "elements (Element t as cs) = Element t as cs # concat (map elements cs)"
| "elements (TextNode s) = []"
| "elements (Comment s) = []"

text \<open>\<open>$(tag)\<close>: the elements of the page with that tag name, in document order.\<close>

definition select :: "document \<Rightarrow> (node \<Rightarrow> bool) \<Rightarrow> node list" where
  "select doc p = filter p (concat (map elements doc))"

definition select_tag :: "document \<Rightarrow> string \<Rightarrow> node list" where
  "select_tag doc t = select doc (\<lambda>e. tag e = t)"

text \<open>
  The text of a node: its own data for a text node, the texts of its children for an
  element, nothing for a comment.
\<close>

fun textContent :: "node \<Rightarrow> string" where
  "textContent (Element t as cs) = concat (map textContent cs)"
| "textContent (TextNode s) = s"
| "textContent (Comment s) = []"

text \<open>\<open>.text()\<close> of a selection: the texts of its elements, joined with nothing between.\<close>

definition text_of :: "node list \<Rightarrow> string" where
  "text_of es = concat (map textContent es)"


section \<open>Images\<close>

record image =
  src :: string
  alt :: string

record image_summary =
  total :: nat
  missingAlt :: nat
  missingAltPercentage :: jsnum
  examples :: "image list"

definition image_of :: "node \<Rightarrow> image" where
  "image_of el = \<lparr>src = or_else (attr el ''src'') [], alt = or_else (attr el ''alt'') []\<rparr>"

definition analyzeImages :: "document \<Rightarrow> image_summary" where
  "analyzeImages doc =
     (let images = map image_of (select_tag doc ''img'');
          missing = length (filter (\<lambda>img. alt img = []) images)
      in \<lparr>total = length images,
          missingAlt = missing,
          missingAltPercentage = or_zero (Math_round (times100 (js_div missing (length images)))),
          examples = take 2 (filter (\<lambda>img. alt img = []) images)\<rparr>)"

section \<open>The runtime\<close>

text \<open>
  What the analysis calls and this repository does not define: the URL parser of the
  platform (\<open>new URL(s)\<close>, which throws a TypeError on a string that is no absolute
  URL), the HTTP client (\<open>axios.get\<close>, which rejects on a network failure and on a
  status outside 2xx) and the HTML parser (\<open>cheerio.load\<close>). They are parameters of the
  model. A response body is taken to be text.
\<close>

datatype js_error = TypeError string | AxiosError string | Error string

record parsed_url =
  hostname :: string
  origin :: string

record runtime =
  parse_url :: "string \<Rightarrow> parsed_url option"
  http_get :: "string \<Rightarrow> js_error + string"
  cheerio_load :: "string \<Rightarrow> document"

text \<open>\<open>new URL(s)\<close> with its exception as a value.\<close>

definition new_URL :: "runtime \<Rightarrow> string \<Rightarrow> js_error + parsed_url" where
  "new_URL rt s = (case parse_url rt s of None \<Rightarrow> Inl (TypeError ''Invalid URL'') | Some u \<Rightarrow> Inr u)"

section \<open>Links\<close>

record link_summary =
  total :: nat
  internal :: nat
  external :: nat
  ratio :: string

text \<open>
  \<open>$('a').map((i, el) => $(el).attr('href')).get()\<close>: cheerio's \<open>map\<close> leaves out
  every \<open>undefined\<close> result, so an anchor with no \<open>href\<close> contributes nothing.
\<close>

definition hrefs :: "document \<Rightarrow> string list" where
  "hrefs doc = List.map_filter (\<lambda>el. attr el ''href'') (select_tag doc ''a'')"

definition is_internal :: "string \<Rightarrow> string \<Rightarrow> bool" where
  "is_internal domain href =
     (href \<noteq> [] \<and> (str_includes href domain \<or> startsWith href ''/'' \<or> startsWith href ''#''))"

definition analyzeLinks :: "runtime \<Rightarrow> document \<Rightarrow> string \<Rightarrow> js_error + link_summary" where
  "analyzeLinks rt doc baseUrl =
     (let links = hrefs doc
      in case new_URL rt baseUrl of
           Inl e \<Rightarrow> Inl e
         | Inr u \<Rightarrow>
             (let domain = hostname u;
                  n = length (filter (is_internal domain) links)
              in Inr \<lparr>total = length links,
                      internal = n,
                      external = length links - n,
                      ratio = toFixed1 (times100 (js_div n (length links))) @ ''% internal''\<rparr>))"

section \<open>Keywords\<close>

text \<open>
  \<open>text.split(/\s+/)\<close>: the pieces between the maximal runs of white space. A run at
  the start or at the end of the text leaves an empty piece there, and the empty text
  splits into one empty piece.
\<close>

fun split_ws :: "string \<Rightarrow> string list" where
  "split_ws [] = [[]]"
| "split_ws (c # cs) =
     (if is_space c then
        (if cs \<noteq> [] \<and> is_space (hd cs) then split_ws cs else [] # split_ws cs)
      else (case split_ws cs of [] \<Rightarrow> [[c]] | w # ws \<Rightarrow> (c # w) # ws))"

text \<open>
  The elements with an ancestor of tag \<open>t\<close>, in document order; \<open>inside\<close> says that
  such an ancestor has been passed.
\<close>

fun under :: "string \<Rightarrow> bool \<Rightarrow> node \<Rightarrow> node list" where
  "under t inside (Element n as cs) =
     (if inside then [Element n as cs] else []) @ concat (map (under t (inside \<or> n = t)) cs)"
| "under t inside (TextNode s) = []"
| "under t inside (Comment s) = []"

definition keyword_tags :: "string list" where
  "keyword_tags = [''h1'', ''h2'', ''h3'', ''h4'', ''h5'', ''h6'', ''span'', ''p'', ''li'']"

text \<open>\<open>$('body h1, body h2, ..., body span, body p, body li')\<close>.\<close>

definition keyword_selection :: "document \<Rightarrow> node list" where
  "keyword_selection doc =
     filter (\<lambda>e. tag e \<in> set keyword_tags) (concat (map (under ''body'' False) doc))"

definition page_words :: "document \<Rightarrow> string list" where
  "page_words doc =
     filter (\<lambda>word. 3 < length word) (split_ws (toLowerCase (text_of (keyword_selection doc))))"

text \<open>
  \<open>wordCount\<close> is a plain object: its own properties, in the order they were added
  (no key is an array index, every key being made of the letters a to z), over
  \<open>Object.prototype\<close>. A read of a key that is no own property goes to the prototype, and
  \<open>constructor\<close> is the one name of \<open>Object.prototype\<close> written in lower-case letters
  only: it reads as the function \<open>Object\<close>.
\<close>

datatype jsval = JNum nat | JStr string | JObject_function

definition get_prop :: "(string \<times> jsval) list \<Rightarrow> string \<Rightarrow> jsval option" where
  "get_prop obj k =
     (case map_of obj k of
        Some v \<Rightarrow> Some v
      | None \<Rightarrow> if k = ''constructor'' then Some JObject_function else None)"

definition Object_source :: string where
  "Object_source = ''function Object() { [native code] }''"

text \<open>
  \<open>(v || 0) + 1\<close>: a missing count is 0; a number is incremented; a string or a function
  is truthy, and \<open>+\<close> then appends the digit to its text.
\<close>

definition plus_one :: "jsval option \<Rightarrow> jsval" where
  "plus_one v =
     (case v of
        None \<Rightarrow> JNum 1
      | Some (JNum n) \<Rightarrow> JNum (n + 1)
      | Some (JStr s) \<Rightarrow> (if s = [] then JNum 1 else JStr (s @ ''1''))
      | Some JObject_function \<Rightarrow> JStr (Object_source @ ''1''))"

text \<open>The body of \<open>words.forEach\<close>: the word is stripped of all but a to z, then counted.\<close>

definition count_word :: "(string \<times> jsval) list \<Rightarrow> string \<Rightarrow> (string \<times> jsval) list" where
  "count_word wc word =
     (let w = filter is_az word in AList.update w (plus_one (get_prop wc w)) wc)"

definition wordCount :: "document \<Rightarrow> (string \<times> jsval) list" where
  "wordCount doc = foldl count_word [] (page_words doc)"

text \<open>
  The comparator \<open>(a, b) => b[1] - a[1]\<close>. A count that is a string (the text of a
  function followed by digits) converts to NaN, and so does the difference.
\<close>

definition compare_entries :: "string \<times> jsval \<Rightarrow> string \<times> jsval \<Rightarrow> jsnum" where
  "compare_entries a b =
     (case (snd b, snd a) of
        (JNum x, JNum y) \<Rightarrow> Num (of_nat x - of_nat y)
      | _ \<Rightarrow> NaN)"

text \<open>
  \<open>Array.prototype.sort\<close> puts \<open>a\<close> before \<open>b\<close> when the comparator is negative on
  \<open>(a, b)\<close>, reads NaN as 0, and is stable. The model is the stable insertion sort.
  (Where the comparator is not consistent the standard leaves the order to the
  implementation.)
\<close>

definition sorts_before :: "string \<times> jsval \<Rightarrow> string \<times> jsval \<Rightarrow> bool" where
  "sorts_before a b = (case compare_entries a b of Num r \<Rightarrow> r < 0 | _ \<Rightarrow> False)"

fun insert_entry :: "string \<times> jsval \<Rightarrow> (string \<times> jsval) list \<Rightarrow> (string \<times> jsval) list" where
  "insert_entry x [] = [x]"
| "insert_entry x (y # ys) = (if sorts_before y x then y # insert_entry x ys else x # y # ys)"

definition sort_entries :: "(string \<times> jsval) list \<Rightarrow> (string \<times> jsval) list" where
  "sort_entries es = foldr insert_entry es []"

text \<open>The keywords before they are joined: \<open>.sort(...).slice(0, 10).map(([word]) => word)\<close>.\<close>

definition topKeywords :: "document \<Rightarrow> string list" where
  "topKeywords doc = map fst (take 10 (sort_entries (wordCount doc)))"

record keyword_summary =
  description :: string
  keywords' :: string

definition getCommonKeywords :: "document \<Rightarrow> keyword_summary" where
  "getCommonKeywords doc =
     \<lparr>description = ''Top 10 most frequent keywords found on the page'',
      keywords' = or_else (Some (join '' '' (topKeywords doc))) ''No significant keywords found''\<rparr>"

section \<open>The other signals of the page\<close>

record meta_description =
  found :: bool
  length_field :: nat
  content :: string



record heading_summary =
  count :: nat
  examples :: "string list"


record title_data =
  length_field :: nat
  content :: string


record canonical_tag =
  found :: bool
  url :: string


record noindex_check =
  isNoIndex :: bool


record found_count =
  found :: bool
  count :: nat



record www_canonicalization =
  hasWWW :: bool
  recommendation :: string

definition checkWWWCanonicalization :: "string \<Rightarrow> www_canonicalization" where
  "checkWWWCanonicalization u =
     \<lparr>hasWWW = str_includes u ''www.'',
      recommendation = ''Ensure either www or non-www version redirects to the preferred version''\<rparr>"


text \<open>The result has no \<open>disallowCount\<close> when the file could not be read.\<close>

record robots_txt =
  exists_field :: bool
  disallowCount :: "nat option"


record search_preview =
  title :: string
  url :: string
  description :: string
  previewText :: string


section \<open>The report\<close>

record headings_report =
  h1 :: heading_summary
  h2 :: heading_summary

record meta_tags =
  canonical :: canonical_tag
  noindex :: noindex_check
  openGraph :: found_count

record technical_seo =
  wwwCanonicalization :: www_canonicalization
  robotsTxt :: robots_txt
  schemaMarkup :: found_count

record seo_report =
  commonKeywords :: keyword_summary
  metaDescription :: meta_description
  headings :: headings_report
  images :: image_summary
  links :: link_summary
  title :: title_data
  metaTags :: meta_tags
  technicalSEO :: technical_seo
  searchPreview :: search_preview




section \<open>The security tab\<close>

subsection \<open>The TLS grade\<close>

text \<open>
  The payload of the grading service. \<open>checkSSL\<close> reads its \<open>status\<close> and hands the
  payload on; the \<open>details\<close> of an endpoint and the other keys of the payload are read by
  the rendering only and are left out.
\<close>

record SslEndpoint =
  ipAddress :: string
  grade :: "string option"

record SslData =
  endpoints :: "SslEndpoint list option"
  status :: "string option"













subsection \<open>Headers and exposed paths\<close>

datatype http_method = GET | HEAD

datatype redirect_mode = Follow | Manual

text \<open>A call of \<open>fetch\<close>; the mode is \<open>cors\<close> in every call and is left out.\<close>

record request =
  target :: string
  via :: http_method
  redirect :: redirect_mode

text \<open>
  A response: its status, \<open>headers.get\<close> (by lower-case name) and what \<open>text()\<close>
  resolves to.
\<close>

record http_response =
  status :: nat
  header_get :: "string \<Rightarrow> string option"
  body_text :: "js_error + string"

type_synonym fetcher = "request \<Rightarrow> js_error + http_response"

record SecurityHeaders =
  strictTransportSecurity :: "string option"
  xFrameOptions :: "string option"
  xXssProtection :: "string option"
  contentSecurityPolicy :: "string option"
  xContentTypeOptions :: "string option"

record AdminUrlVuln =
  url :: string
  status :: nat
  accessible :: bool

record SensitiveFileVuln =
  file' :: string
  accessible :: bool
  status :: nat

record Vulnerabilities =
  adminUrls :: "AdminUrlVuln list"
  directoryIndexing :: bool
  sensitiveFiles :: "SensitiveFileVuln list"

record security_result =
  headers :: SecurityHeaders
  vulnerabilities :: Vulnerabilities

text \<open>\<open>v || null\<close>: a missing header and an empty one both give \<open>null\<close>.\<close>

definition or_null :: "string option \<Rightarrow> string option" where
  "or_null v = (case v of None \<Rightarrow> None | Some s \<Rightarrow> if s = [] then None else Some s)"

definition no_headers :: SecurityHeaders where
  "no_headers =
     \<lparr>strictTransportSecurity = None, xFrameOptions = None, xXssProtection = None,
      contentSecurityPolicy = None, xContentTypeOptions = None\<rparr>"

text \<open>
  The first \<open>try\<close> statement: the fields keep their initial \<open>null\<close> when the request is
  rejected; the \<open>catch\<close> clause only logs.
\<close>

definition check_headers :: "fetcher \<Rightarrow> string \<Rightarrow> SecurityHeaders" where
  "check_headers fetch baseUrl =
     (case fetch \<lparr>target = baseUrl, via = HEAD, redirect = Follow\<rparr> of
        Inl e \<Rightarrow> no_headers
      | Inr response \<Rightarrow>
          \<lparr>strictTransportSecurity = or_null (header_get response ''strict-transport-security''),
           xFrameOptions = or_null (header_get response ''x-frame-options''),
           xXssProtection = or_null (header_get response ''x-xss-protection''),
           contentSecurityPolicy = or_null (header_get response ''content-security-policy''),
           xContentTypeOptions = or_null (header_get response ''x-content-type-options'')\<rparr>)"

definition adminPaths :: "string list" where
  "adminPaths =
     [''/admin'', ''/administrator'', ''/wp-admin'', ''/admin.php'', ''/login'',
      ''/dashboard'', ''/cpanel'', ''/control'', ''/manager'']"

text \<open>One turn of the first \<open>for\<close> loop: \<open>acc\<close> is \<open>vulns.adminUrls\<close>.\<close>

definition probe_admin :: "fetcher \<Rightarrow> string \<Rightarrow> AdminUrlVuln list \<Rightarrow> string \<Rightarrow> AdminUrlVuln list" where
  "probe_admin fetch baseUrl acc path =
     (case fetch \<lparr>target = baseUrl @ path, via = HEAD, redirect = Manual\<rparr> of
        Inl e \<Rightarrow> acc
      | Inr adminResponse \<Rightarrow>
          if http_response.status adminResponse \<noteq> 404 \<and> http_response.status adminResponse \<noteq> 0
          then acc @ [\<lparr>url = path,
                          status = http_response.status adminResponse,
                          accessible = http_response.status adminResponse < 400\<rparr>]
          else acc)"

text \<open>The directory listing check: an exception of \<open>fetch\<close> or of \<open>text()\<close> leaves \<open>false\<close>.\<close>

definition check_directory :: "fetcher \<Rightarrow> string \<Rightarrow> bool" where
  "check_directory fetch baseUrl =
     (case fetch \<lparr>target = baseUrl @ ''/'', via = GET, redirect = Follow\<rparr> of
        Inl e \<Rightarrow> False
      | Inr dirResponse \<Rightarrow>
          (case body_text dirResponse of
             Inl e \<Rightarrow> False
           | Inr dirText \<Rightarrow>
               str_includes dirText ''Index of /'' \<or> str_includes dirText ''Directory Listing'' \<or>
               str_includes dirText ''<title>Index of''))"

definition sensitiveFilePaths :: "string list" where
  "sensitiveFilePaths =
     [''/.env'', ''/config.php'', ''/wp-config.php'', ''/.htaccess'', ''/robots.txt'',
      ''/sitemap.xml'', ''/backup.sql'', ''/database.sql'', ''/.git/config'',
      ''/composer.json'', ''/package.json'']"

text \<open>One turn of the second \<open>for\<close> loop: \<open>acc\<close> is \<open>vulns.sensitiveFiles\<close>.\<close>

definition probe_file ::
  "fetcher \<Rightarrow> string \<Rightarrow> SensitiveFileVuln list \<Rightarrow> string \<Rightarrow> SensitiveFileVuln list" where
  "probe_file fetch baseUrl acc f =
     (case fetch \<lparr>target = baseUrl @ f, via = HEAD, redirect = Follow\<rparr> of
        Inl e \<Rightarrow> acc
      | Inr fileResponse \<Rightarrow>
          if http_response.status fileResponse = 200
          then acc @ [\<lparr>file' = f, accessible = True, status = http_response.status fileResponse\<rparr>]
          else acc)"

text \<open>
  \<open>checkSecurityHeaders\<close>, the rejection of its promise being \<open>Inl\<close>: every \<open>await\<close>
  stands in a \<open>try\<close> statement whose \<open>catch\<close> clause throws nothing.
\<close>

definition checkSecurityHeaders :: "fetcher \<Rightarrow> string \<Rightarrow> js_error + security_result" where
  "checkSecurityHeaders fetch hostname' =
     (let baseUrl = ''https://'' @ hostname';
          hs = check_headers fetch baseUrl;
          admins = foldl (probe_admin fetch baseUrl) [] adminPaths;
          indexing = check_directory fetch baseUrl;
          files = foldl (probe_file fetch baseUrl) [] sensitiveFilePaths
      in Inr \<lparr>headers = hs,
              vulnerabilities =
                \<lparr>adminUrls = admins, directoryIndexing = indexing, sensitiveFiles = files\<rparr>\<rparr>)"

section \<open>Example pages and environments\<close>

text \<open>
  A page with a title and a description and nothing else, as the HTML parser builds it
  (the \<open>head\<close> and the \<open>body\<close> are always there).
\<close>

definition page_html :: string where
  "page_html = ''<html><title>T</title><meta name=description content=D></html>''"

definition page_doc :: document where
  "page_doc =
     [Element ''html'' []
        [Element ''head'' []
           [Element ''title'' [] [TextNode ''T''],
            Element ''meta'' [(''name'', ''description''), (''content'', ''D'')] []],
         Element ''body'' [] []]]"

text \<open>Three images: an empty \<open>alt\<close>, no \<open>alt\<close>, and a described one.\<close>

definition gallery_doc :: document where
  "gallery_doc =
     [Element ''html'' []
        [Element ''head'' [] [],
         Element ''body'' []
           [Element ''img'' [(''src'', ''a.png''), (''alt'', [])] [],
            Element ''img'' [(''src'', ''b.png'')] [],
            Element ''img'' [(''src'', ''c.png''), (''alt'', ''a cat'')] []]]]"

text \<open>
  What \<open>new URL\<close> makes of the absolute URLs the examples use. A string outside the
  table stands for one that is no absolute URL, such as \<open>/index.html\<close>.
\<close>

definition example_urls :: "(string \<times> parsed_url) list" where
  "example_urls =
     [(''https://example.com'', \<lparr>hostname = ''example.com'', origin = ''https://example.com''\<rparr>),
      (''https://example.com/www.html'',
         \<lparr>hostname = ''example.com'', origin = ''https://example.com''\<rparr>),
      (''https://www.example.com/'',
         \<lparr>hostname = ''www.example.com'', origin = ''https://www.example.com''\<rparr>)]"

text \<open>
  The bodies the HTTP client gets. The last row is a server on the local host: the
  client resolves a relative URL against it.
\<close>

definition example_bodies :: "(string \<times> string) list" where
  "example_bodies =
     [(''https://example.com'', page_html),
      (''https://www.example.com/'', page_html),
      (''/index.html'', page_html)]"

definition example_runtime :: runtime where
  "example_runtime =
     \<lparr>parse_url = map_of example_urls,
      http_get = (\<lambda>u. case map_of example_bodies u of
                          None \<Rightarrow> Inl (AxiosError ''Request failed'')
                        | Some body \<Rightarrow> Inr body),
      cheerio_load = (\<lambda>html. if html = page_html then page_doc
                              else [Element ''html'' [] [Element ''head'' [] [], Element ''body'' [] []]])\<rparr>"


text \<open>
  A site whose front page rejects the header request, with an admin page, a login page
  that refuses, a dashboard that redirects (status 0 under \<open>redirect: 'manual'\<close>), a
  path whose request fails, a directory listing at the root and two readable files.
\<close>

definition not_found :: http_response where
  "not_found = \<lparr>http_response.status = 404, header_get = (\<lambda>n. None), body_text = Inr []\<rparr>"

definition flaky_site :: fetcher where
  "flaky_site req =
     (if target req = ''https://example.com'' then Inl (TypeError ''Failed to fetch'')
      else if target req = ''https://example.com/admin'' then Inr (not_found\<lparr>http_response.status := 200\<rparr>)
      else if target req = ''https://example.com/login'' then Inr (not_found\<lparr>http_response.status := 403\<rparr>)
      else if target req = ''https://example.com/dashboard'' then Inr (not_found\<lparr>http_response.status := 0\<rparr>)
      else if target req = ''https://example.com/cpanel'' then Inl (TypeError ''Failed to fetch'')
      else if target req = ''https://example.com/'' then
        Inr (not_found\<lparr>http_response.status := 200,
                         body_text := Inr ''<html><title>Index of /</title></html>''\<rparr>)
      else if target req = ''https://example.com/.env'' then Inr (not_found\<lparr>http_response.status := 200\<rparr>)
      else if target req = ''https://example.com/robots.txt'' then Inr (not_found\<lparr>http_response.status := 200\<rparr>)
      else if target req = ''https://example.com/backup.sql'' then Inr (not_found\<lparr>http_response.status := 403\<rparr>)
      else Inr not_found)"






text \<open>Pages of one paragraph.\<close>

definition paragraph_page :: "string \<Rightarrow> document" where
  "paragraph_page s =
     [Element ''html'' []
        [Element ''head'' [] [],
         Element ''body'' [] [Element ''p'' [] [TextNode s]]]]"

definition apostrophe_doc :: document where
  "apostrophe_doc = paragraph_page ''It's working''"

definition numbers_doc :: document where
  "numbers_doc = paragraph_page ''2024 2025 news''"

definition constructor_doc :: document where
  "constructor_doc = paragraph_page ''constructor testing testing''"

definition testing_doc :: document where
  "testing_doc = paragraph_page ''Testing testing, the testing of TESTING is testing.''"

text \<open>
  How often a keyword occurs on the page, and the count an entry of \<open>wordCount\<close>
  carries when it is a number.
\<close>

definition frequency :: "document \<Rightarrow> string \<Rightarrow> nat" where
  "frequency doc t = count_list (map (filter is_az) (page_words doc)) t"

definition count_of :: "string \<times> jsval \<Rightarrow> nat" where
  "count_of e = (case snd e of JNum n \<Rightarrow> n | JStr s \<Rightarrow> 0 | JObject_function \<Rightarrow> 0)"

definition numeric :: "string \<times> jsval \<Rightarrow> bool" where
  "numeric e = (case snd e of JNum n \<Rightarrow> True | JStr s \<Rightarrow> False | JObject_function \<Rightarrow> False)"

definition counts :: "(string \<times> jsval) list \<Rightarrow> string \<Rightarrow> nat" where
  "counts wc k = (case map_of wc k of Some (JNum n) \<Rightarrow> n | _ \<Rightarrow> 0)"

section \<open>Properties of the page analysis\<close>

subsection \<open>Strings\<close>

lemma startsWith_prefix: "startsWith s p = prefix p s"
  by (induction s p rule: startsWith.induct) auto

lemma str_includes_sublist: "str_includes s p = sublist p s"
  by (induction s) (auto simp: startsWith_prefix sublist_Cons_right)

subsection \<open>Images\<close>

text \<open>
  Claim C7. A page with no \<open>img\<close> element has \<open>total\<close> 0 and \<open>missingAltPercentage\<close> 0:
  the NaN of \<open>0 / 0\<close> is replaced by 0.
\<close>

theorem analyzeImages_no_images:
  "select_tag doc ''img'' = [] \<Longrightarrow>
     image_summary.total (analyzeImages doc) = 0 \<and> missingAltPercentage (analyzeImages doc) = Num 0"
  by (simp add: analyzeImages_def js_div_def times100_def Math_round_def or_zero_def)

theorem analyzeImages_no_images_witness:
  "select_tag page_doc ''img'' = [] \<and>
   image_summary.total (analyzeImages page_doc) = 0 \<and>
   missingAltPercentage (analyzeImages page_doc) = Num 0"
proof -
  have none: "select_tag page_doc ''img'' = []"
    by (simp add: page_doc_def select_tag_def select_def)
  show ?thesis
    using none analyzeImages_no_images [OF none] by simp
qed

lemma image_of_alt_empty:
  "(alt (image_of el) = []) = (attr el ''alt'' = None \<or> attr el ''alt'' = Some [])"
  by (auto simp: image_of_def or_else_def split: option.splits)

text \<open>
  Claim C10. The images counted in \<open>missingAlt\<close> are those whose \<open>alt\<close> is absent or
  empty, the examples are the first two of them, each shown with an empty \<open>alt\<close>, and an
  image with an empty \<open>alt\<close> is read as the same record as one with the same \<open>src\<close> and
  no \<open>alt\<close>.
\<close>

theorem empty_alt_is_missing_alt:
  "missingAlt (analyzeImages doc) =
     length (filter (\<lambda>el. attr el ''alt'' = None \<or> attr el ''alt'' = Some []) (select_tag doc ''img'')) \<and>
   image_summary.examples (analyzeImages doc) =
     take 2 (map (\<lambda>el. \<lparr>src = or_else (attr el ''src'') [], alt = []\<rparr>)
       (filter (\<lambda>el. attr el ''alt'' = None \<or> attr el ''alt'' = Some []) (select_tag doc ''img''))) \<and>
   (\<forall>el el'. attr el ''alt'' = Some [] \<and> attr el' ''alt'' = None \<and> attr el ''src'' = attr el' ''src''
      \<longrightarrow> image_of el = image_of el')"
proof -
  let ?P = "\<lambda>el. attr el ''alt'' = None \<or> attr el ''alt'' = Some []"
  let ?imgs = "select_tag doc ''img''"
  have sel: "filter (\<lambda>img. alt img = []) (map image_of ?imgs) = map image_of (filter ?P ?imgs)"
    by (simp add: filter_map o_def image_of_alt_empty)
  have shape: "map image_of (filter ?P ?imgs) =
      map (\<lambda>el. \<lparr>src = or_else (attr el ''src'') [], alt = []\<rparr>) (filter ?P ?imgs)"
    by (rule map_cong) (auto simp: image_of_def or_else_def)
  have cnt: "missingAlt (analyzeImages doc) = length (filter ?P ?imgs)"
    by (simp add: analyzeImages_def Let_def sel)
  have ex: "image_summary.examples (analyzeImages doc) =
      take 2 (map (\<lambda>el. \<lparr>src = or_else (attr el ''src'') [], alt = []\<rparr>) (filter ?P ?imgs))"
    by (simp add: analyzeImages_def Let_def sel shape)
  have same: "\<forall>el el'. attr el ''alt'' = Some [] \<and> attr el' ''alt'' = None \<and>
      attr el ''src'' = attr el' ''src'' \<longrightarrow> image_of el = image_of el'"
    by (simp add: image_of_def or_else_def)
  from cnt ex same show ?thesis by blast
qed

theorem empty_alt_is_missing_alt_witness:
  "missingAlt (analyzeImages gallery_doc) = 2 \<and>
   image_summary.examples (analyzeImages gallery_doc) =
     [\<lparr>src = ''a.png'', alt = []\<rparr>, \<lparr>src = ''b.png'', alt = []\<rparr>] \<and>
   image_of (Element ''img'' [(''src'', ''a.png''), (''alt'', [])] []) =
     image_of (Element ''img'' [(''src'', ''a.png'')] [])"
  using empty_alt_is_missing_alt [of gallery_doc]
  by (simp add: gallery_doc_def select_tag_def select_def or_else_def)

subsection \<open>Links\<close>

lemma analyzeLinks_no_links:
  "hrefs doc = [] \<Longrightarrow> parse_url rt u = Some p \<Longrightarrow>
     analyzeLinks rt doc u = Inr \<lparr>total = 0, internal = 0, external = 0, ratio = ''NaN% internal''\<rparr>"
  by (simp add: analyzeLinks_def new_URL_def js_div_def times100_def toFixed1_def)

text \<open>
  Claim C2. On the page with no anchor the division is \<open>0 / 0\<close> and nothing replaces
  its NaN: the ratio reads \<open>NaN% internal\<close>.
\<close>

theorem analyzeLinks_no_anchor_ratio_NaN:
  "select_tag page_doc ''a'' = [] \<and>
   analyzeLinks example_runtime page_doc ''https://example.com'' =
     Inr \<lparr>total = 0, internal = 0, external = 0, ratio = ''NaN% internal''\<rparr>"
  by (simp add: analyzeLinks_def new_URL_def js_div_def times100_def toFixed1_def hrefs_def
      select_tag_def select_def page_doc_def example_runtime_def example_urls_def
      List.map_filter_simps)

subsection \<open>The www flag\<close>

text \<open>
  Claim C9, as the code has it. \<open>hasWWW\<close> says that \<open>www.\<close> occurs somewhere in the URL
  string it was given: in the host name, the path, the query or anywhere else.
\<close>

theorem hasWWW_is_substring_of_url:
  "hasWWW (checkWWWCanonicalization u) = sublist ''www.'' u"
  by (simp add: checkWWWCanonicalization_def str_includes_sublist)

text \<open>
  The claim as it was stated (the flag follows the host name) fails on a URL whose
  path has \<open>www.\<close> and whose host name has not.
\<close>

theorem hasWWW_hostname_counterexample:
  "parse_url example_runtime ''https://example.com/www.html'' =
     Some \<lparr>hostname = ''example.com'', origin = ''https://example.com''\<rparr> \<and>
   hasWWW (checkWWWCanonicalization ''https://example.com/www.html'') \<and>
   \<not> str_includes ''example.com'' ''www.''"
  by (simp add: example_runtime_def example_urls_def checkWWWCanonicalization_def)

subsection \<open>The error object\<close>






subsection \<open>Keywords\<close>

text \<open>The pieces of \<open>split\<close> hold no white space.\<close>

lemma split_ws_nonempty: "split_ws s \<noteq> []"
  by (induction s) (auto split: list.splits)

lemma split_ws_no_space: "w \<in> set (split_ws s) \<Longrightarrow> c \<in> set w \<Longrightarrow> \<not> is_space c"
proof (induction s arbitrary: w)
  case Nil
  then show ?case by simp
next
  case (Cons a s)
  show ?case
  proof (cases "is_space a")
    case True
    with Cons show ?thesis by (auto split: if_splits)
  next
    case False
    obtain v vs where vs: "split_ws s = v # vs"
      using split_ws_nonempty [of s] by (cases "split_ws s") auto
    with False Cons.prems have "w = a # v \<or> w \<in> set vs" by auto
    with False Cons.IH [of v] Cons.IH [of w] vs Cons.prems(2) show ?thesis by auto
  qed
qed

lemma count_word_keys: "fst ` set (count_word wc w) = insert (filter is_az w) (fst ` set wc)"
  by (simp add: count_word_def Let_def dom_update)

lemma wordCount_keys: "fst ` set (foldl count_word wc ws) = fst ` set wc \<union> filter is_az ` set ws"
  by (induction ws arbitrary: wc) (auto simp: count_word_keys)

lemma set_insert_entry: "set (insert_entry x ys) = insert x (set ys)"
  by (induction ys) auto

lemma set_sort_entries: "set (sort_entries es) = set es"
  by (induction es) (simp_all add: sort_entries_def set_insert_entry)

lemma topKeywords_subset: "set (topKeywords doc) \<subseteq> filter is_az ` set (page_words doc)"
proof -
  have "set (topKeywords doc) \<subseteq> fst ` set (sort_entries (wordCount doc))"
    unfolding topKeywords_def using set_take_subset [of 10 "sort_entries (wordCount doc)"] by auto
  also have "\<dots> = filter is_az ` set (page_words doc)"
    by (simp add: set_sort_entries wordCount_def wordCount_keys)
  finally show ?thesis .
qed

text \<open>
  Claim C3, as the code has it. Every keyword is made of the letters a to z only, and is
  what is left of a white-space delimited word of the lower-cased text, longer than 3
  characters, when everything but a to z is deleted from it: the keyword itself may be
  short, or empty. The \<open>keywords\<close> field is the keywords joined by single spaces, or the
  text \<open>No significant keywords found\<close> when that is empty.
\<close>

theorem keywords_are_stripped_words:
  "(\<forall>t \<in> set (topKeywords doc).
      (\<forall>c \<in> set t. is_az c) \<and>
      (\<exists>w \<in> set (split_ws (toLowerCase (text_of (keyword_selection doc)))).
         3 < length w \<and> t = filter is_az w)) \<and>
   keywords' (getCommonKeywords doc) =
     (if join '' '' (topKeywords doc) = [] then ''No significant keywords found''
      else join '' '' (topKeywords doc))"
proof -
  have "\<forall>t \<in> set (topKeywords doc).
      (\<forall>c \<in> set t. is_az c) \<and>
      (\<exists>w \<in> set (split_ws (toLowerCase (text_of (keyword_selection doc)))).
         3 < length w \<and> t = filter is_az w)"
  proof
    fix t
    assume "t \<in> set (topKeywords doc)"
    with topKeywords_subset obtain w where w: "w \<in> set (page_words doc)" and t: "t = filter is_az w"
      by blast
    from w have "w \<in> set (split_ws (toLowerCase (text_of (keyword_selection doc))))" "3 < length w"
      by (simp_all add: page_words_def)
    with t show "(\<forall>c \<in> set t. is_az c) \<and>
      (\<exists>w \<in> set (split_ws (toLowerCase (text_of (keyword_selection doc)))).
         3 < length w \<and> t = filter is_az w)"
      by auto
  qed
  moreover have "keywords' (getCommonKeywords doc) =
     (if join '' '' (topKeywords doc) = [] then ''No significant keywords found''
      else join '' '' (topKeywords doc))"
    by (simp add: getCommonKeywords_def or_else_def)
  ultimately show ?thesis by blast
qed

lemma apostrophe_run: "topKeywords apostrophe_doc = [''its'', ''working'']"
  by code_simp

theorem keywords_are_stripped_words_witness:
  "topKeywords apostrophe_doc = [''its'', ''working''] \<and>
   list_all is_az ''its'' \<and> list_all is_az ''working'' \<and>
   keywords' (getCommonKeywords apostrophe_doc) = ''its working''"
  using keywords_are_stripped_words [of apostrophe_doc]
  by (simp add: apostrophe_run is_az_def)

text \<open>
  The claim as it was stated (every keyword is longer than 3 characters) fails on a
  word with an apostrophe, and on numbers, which are stripped to the empty keyword.
\<close>

theorem keyword_of_three_letters:
  "keywords' (getCommonKeywords apostrophe_doc) = ''its working'' \<and>
   topKeywords apostrophe_doc = [''its'', ''working''] \<and>
   \<not> 3 < length ''its'' \<and>
   topKeywords numbers_doc = [[], ''news''] \<and>
   keywords' (getCommonKeywords numbers_doc) = '' news''"
  by code_simp

text \<open>
  Claim C8. On a page that has the word \<open>constructor\<close> once and \<open>testing\<close> twice, the
  count of \<open>constructor\<close> is a string, the comparator is NaN on it, and the rarer word
  comes first.
\<close>

theorem keywords_constructor_first:
  "page_words constructor_doc = [''constructor'', ''testing'', ''testing''] \<and>
   wordCount constructor_doc =
     [(''constructor'', JStr ''function Object() { [native code] }1''), (''testing'', JNum 2)] \<and>
   topKeywords constructor_doc = [''constructor'', ''testing''] \<and>
   keywords' (getCommonKeywords constructor_doc) = ''constructor testing''"
  by code_simp

text \<open>The page whose only long word is \<open>testing\<close>, five times.\<close>

lemma testing_run:
  "topKeywords testing_doc = [''testing''] \<and> keywords' (getCommonKeywords testing_doc) = ''testing''"
  by code_simp

lemma length_topKeywords: "length (topKeywords doc) \<le> 10"
  by (simp add: topKeywords_def)

lemma sorts_before_numeric:
  "numeric a \<Longrightarrow> numeric b \<Longrightarrow> sorts_before a b = (count_of b < count_of a)"
  by (auto simp: sorts_before_def compare_entries_def numeric_def count_of_def split: jsval.splits)

lemma sorted_insert_entry:
  assumes "sorted_wrt (\<lambda>a b. count_of b \<le> count_of a) ys" "numeric x" "list_all numeric ys"
  shows "sorted_wrt (\<lambda>a b. count_of b \<le> count_of a) (insert_entry x ys)"
  using assms
proof (induction ys)
  case Nil
  then show ?case by simp
next
  case (Cons y ys)
  show ?case
  proof (cases "sorts_before y x")
    case True
    with Cons.prems have "count_of x < count_of y"
      by (simp add: sorts_before_numeric)
    with True Cons show ?thesis
      by (auto simp: set_insert_entry)
  next
    case False
    with Cons.prems have "count_of y \<le> count_of x"
      by (simp add: sorts_before_numeric)
    with False Cons.prems show ?thesis
      by auto
  qed
qed

lemma numeric_insert_entry: "list_all numeric (insert_entry x ys) = (numeric x \<and> list_all numeric ys)"
  by (induction ys) auto

lemma sorted_sort_entries:
  "list_all numeric es \<Longrightarrow>
     sorted_wrt (\<lambda>a b. count_of b \<le> count_of a) (sort_entries es) \<and> list_all numeric (sort_entries es)"
  by (induction es) (simp_all add: sort_entries_def sorted_insert_entry numeric_insert_entry)

text \<open>The counting loop, on words none of which is stripped to \<open>constructor\<close>.\<close>

lemma numeric_update:
  "list_all numeric wc \<Longrightarrow> list_all numeric (AList.update k (JNum n) wc)"
  by (induction wc) (auto simp: numeric_def)

lemma count_word_step:
  assumes "list_all numeric wc" "filter is_az w \<noteq> ''constructor''"
  shows "list_all numeric (count_word wc w) \<and>
         counts (count_word wc w) = (counts wc)(filter is_az w := counts wc (filter is_az w) + 1) \<and>
         distinct (map fst (count_word wc w)) = distinct (map fst wc)"
proof -
  let ?k = "filter is_az w"
  have val: "plus_one (get_prop wc ?k) = JNum (counts wc ?k + 1)"
  proof (cases "map_of wc ?k")
    case None
    with assms(2) show ?thesis
      by (simp add: get_prop_def plus_one_def counts_def)
  next
    case (Some v)
    then have "(?k, v) \<in> set wc" by (rule map_of_SomeD)
    with assms(1) have "numeric (?k, v)" by (auto simp: list_all_iff)
    then obtain n where "v = JNum n" by (cases v) (simp_all add: numeric_def)
    with Some show ?thesis
      by (simp add: get_prop_def plus_one_def counts_def)
  qed
  have num: "list_all numeric (count_word wc w)"
    using assms(1) by (simp add: count_word_def Let_def val numeric_update)
  have cnt: "counts (count_word wc w) = (counts wc)(?k := counts wc ?k + 1)"
    by (rule ext) (simp add: counts_def count_word_def Let_def val update_conv')
  have dist: "distinct (map fst (count_word wc w)) = distinct (map fst wc)"
    by (auto simp: count_word_def Let_def update_keys)
  from num cnt dist show ?thesis by blast
qed

lemma count_loop:
  assumes "list_all numeric wc" "''constructor'' \<notin> filter is_az ` set ws"
  shows "list_all numeric (foldl count_word wc ws) \<and>
         (\<forall>k. counts (foldl count_word wc ws) k = counts wc k + count_list (map (filter is_az) ws) k) \<and>
         distinct (map fst (foldl count_word wc ws)) = distinct (map fst wc)"
  using assms
proof (induction ws arbitrary: wc)
  case Nil
  then show ?case by simp
next
  case (Cons w ws)
  from Cons.prems have w: "filter is_az w \<noteq> ''constructor''" and ws: "''constructor'' \<notin> filter is_az ` set ws"
    by auto
  note step = count_word_step [OF Cons.prems(1) w]
  from Cons.IH [OF step [THEN conjunct1] ws] step show ?case
    by auto
qed

lemma wordCount_counts:
  assumes "''constructor'' \<notin> filter is_az ` set (page_words doc)" "e \<in> set (wordCount doc)"
  shows "numeric e \<and> count_of e = frequency doc (fst e)"
proof -
  from count_loop [OF _ assms(1), of "[]"]
  have num: "list_all numeric (wordCount doc)"
    and cnt: "\<And>k. counts (wordCount doc) k = frequency doc k"
    and dist: "distinct (map fst (wordCount doc))"
    by (simp_all add: wordCount_def frequency_def counts_def)
  from num assms(2) have e: "numeric e" by (simp add: list_all_iff)
  from dist assms(2) have "map_of (wordCount doc) (fst e) = Some (snd e)"
    by (cases e) simp
  then have "counts (wordCount doc) (fst e) = count_of e"
    using e by (simp add: counts_def count_of_def numeric_def split: jsval.splits)
  with cnt e show ?thesis by simp
qed

text \<open>
  On a page where no word is stripped to \<open>constructor\<close>, the keywords come by falling
  frequency.
\<close>

lemma topKeywords_by_frequency:
  assumes "''constructor'' \<notin> filter is_az ` set (page_words doc)"
  shows "sorted_wrt (\<lambda>s t. frequency doc t \<le> frequency doc s) (topKeywords doc)"
proof -
  let ?es = "sort_entries (wordCount doc)"
  from wordCount_counts [OF assms] have num: "list_all numeric (wordCount doc)"
    by (simp add: list_all_iff)
  then have "sorted_wrt (\<lambda>a b. count_of b \<le> count_of a) ?es"
    by (simp add: sorted_sort_entries)
  then have "sorted_wrt (\<lambda>a b. count_of b \<le> count_of a) (take 10 ?es)"
    by (rule sorted_wrt_take)
  moreover have "\<forall>e \<in> set (take 10 ?es). count_of e = frequency doc (fst e)"
    using wordCount_counts [OF assms] set_take_subset [of 10 ?es] by (auto simp: set_sort_entries)
  ultimately have "sorted_wrt (\<lambda>a b. frequency doc (fst b) \<le> frequency doc (fst a)) (take 10 ?es)"
    by (auto elim!: sorted_wrt_mono_rel [rotated])
  then show ?thesis
    by (simp add: topKeywords_def sorted_wrt_map)
qed

section \<open>Properties of the security tab\<close>

subsection \<open>The probes\<close>

lemma probe_admin_append: "probe_admin fetch b acc p = acc @ probe_admin fetch b [] p"
  by (simp add: probe_admin_def split: sum.splits)

lemma foldl_probe_admin:
  "foldl (probe_admin fetch b) acc ps = acc @ concat (map (probe_admin fetch b []) ps)"
proof (induction ps arbitrary: acc)
  case Nil
  show ?case by simp
next
  case (Cons p ps)
  have "foldl (probe_admin fetch b) acc (p # ps) = foldl (probe_admin fetch b) (acc @ probe_admin fetch b [] p) ps"
    using probe_admin_append [of fetch b acc p] by simp
  then show ?case by (simp add: Cons.IH)
qed

lemma probe_file_append: "probe_file fetch b acc p = acc @ probe_file fetch b [] p"
  by (simp add: probe_file_def split: sum.splits)

lemma foldl_probe_file:
  "foldl (probe_file fetch b) acc ps = acc @ concat (map (probe_file fetch b []) ps)"
proof (induction ps arbitrary: acc)
  case Nil
  show ?case by simp
next
  case (Cons p ps)
  have "foldl (probe_file fetch b) acc (p # ps) = foldl (probe_file fetch b) (acc @ probe_file fetch b [] p) ps"
    using probe_file_append [of fetch b acc p] by simp
  then show ?case by (simp add: Cons.IH)
qed

lemma probe_admin_entry:
  "e \<in> set (probe_admin fetch b [] p) \<Longrightarrow>
     AdminUrlVuln.status e \<noteq> 404 \<and> AdminUrlVuln.status e \<noteq> 0 \<and>
     AdminUrlVuln.accessible e = (AdminUrlVuln.status e < 400)"
  by (auto simp: probe_admin_def split: sum.splits if_splits)

lemma probe_file_entry:
  "e \<in> set (probe_file fetch b [] p) \<Longrightarrow> SensitiveFileVuln.status e = 200 \<and> SensitiveFileVuln.accessible e"
  by (auto simp: probe_file_def split: sum.splits if_splits)

lemma probe_admin_urls:
  "map url (concat (map (probe_admin fetch b []) ps)) = filter (\<lambda>p. probe_admin fetch b [] p \<noteq> []) ps"
  by (induction ps) (auto simp: probe_admin_def split: sum.splits)

lemma probe_file_names:
  "map file' (concat (map (probe_file fetch b []) ps)) = filter (\<lambda>p. probe_file fetch b [] p \<noteq> []) ps"
  by (induction ps) (auto simp: probe_file_def split: sum.splits)

text \<open>
  Claim C6. Every admin entry has a status other than 404 and 0 and is flagged accessible
  exactly when its status is below 400; every sensitive-file entry has status 200; the
  paths of both lists come in the order of the probe lists.
\<close>

theorem probes_record_only_hits:
  assumes "checkSecurityHeaders fetch host = Inr r"
  shows "(\<forall>e \<in> set (adminUrls (vulnerabilities r)).
            AdminUrlVuln.status e \<noteq> 404 \<and> AdminUrlVuln.status e \<noteq> 0 \<and>
            AdminUrlVuln.accessible e = (AdminUrlVuln.status e < 400)) \<and>
         (\<forall>e \<in> set (sensitiveFiles (vulnerabilities r)). SensitiveFileVuln.status e = 200) \<and>
         subseq (map url (adminUrls (vulnerabilities r))) adminPaths \<and>
         subseq (map file' (sensitiveFiles (vulnerabilities r))) sensitiveFilePaths"
proof -
  let ?b = "''https://'' @ host"
  have admins: "adminUrls (vulnerabilities r) = concat (map (probe_admin fetch ?b []) adminPaths)"
    using assms by (auto simp: checkSecurityHeaders_def Let_def foldl_probe_admin)
  have files: "sensitiveFiles (vulnerabilities r) = concat (map (probe_file fetch ?b []) sensitiveFilePaths)"
    using assms by (auto simp: checkSecurityHeaders_def Let_def foldl_probe_file)
  have a: "\<forall>e \<in> set (adminUrls (vulnerabilities r)).
            AdminUrlVuln.status e \<noteq> 404 \<and> AdminUrlVuln.status e \<noteq> 0 \<and>
            AdminUrlVuln.accessible e = (AdminUrlVuln.status e < 400)"
    unfolding admins using probe_admin_entry by fastforce
  have f: "\<forall>e \<in> set (sensitiveFiles (vulnerabilities r)). SensitiveFileVuln.status e = 200"
    unfolding files using probe_file_entry by fastforce
  have oa: "subseq (map url (adminUrls (vulnerabilities r))) adminPaths"
    unfolding admins probe_admin_urls by (rule subseq_filter_left)
  have ofl: "subseq (map file' (sensitiveFiles (vulnerabilities r))) sensitiveFilePaths"
    unfolding files probe_file_names by (rule subseq_filter_left)
  from a f oa ofl show ?thesis by blast
qed

text \<open>The run on the example site.\<close>

lemma flaky_run:
  "checkSecurityHeaders flaky_site ''example.com'' =
     Inr \<lparr>headers = no_headers,
          vulnerabilities =
            \<lparr>adminUrls = [\<lparr>url = ''/admin'', status = 200, accessible = True\<rparr>,
                           \<lparr>url = ''/login'', status = 403, accessible = False\<rparr>],
             directoryIndexing = True,
             sensitiveFiles = [\<lparr>file' = ''/.env'', accessible = True, status = 200\<rparr>,
                               \<lparr>file' = ''/robots.txt'', accessible = True, status = 200\<rparr>]\<rparr>\<rparr>"
  by code_simp


theorem probes_record_only_hits_witness:
  "\<exists>r. checkSecurityHeaders flaky_site ''example.com'' = Inr r \<and>
     map AdminUrlVuln.status (adminUrls (vulnerabilities r)) = [200, 403] \<and>
     map AdminUrlVuln.accessible (adminUrls (vulnerabilities r)) = [True, False] \<and>
     map SensitiveFileVuln.status (sensitiveFiles (vulnerabilities r)) = [200, 200] \<and>
     subseq [''/admin'', ''/login''] adminPaths \<and>
     subseq [''/.env'', ''/robots.txt''] sensitiveFilePaths"
  using probes_record_only_hits [OF flaky_run] by (simp add: flaky_run)

lemma probe_admin_other_request:
  "p \<noteq> [] \<Longrightarrow>
     probe_admin (fetch(\<lparr>target = b, via = m, redirect = d\<rparr> := x)) b acc p = probe_admin fetch b acc p"
  by (simp add: probe_admin_def)

lemma probe_file_other_request:
  "p \<noteq> [] \<Longrightarrow>
     probe_file (fetch(\<lparr>target = b, via = m, redirect = d\<rparr> := x)) b acc p = probe_file fetch b acc p"
  by (simp add: probe_file_def)

lemma check_directory_other_request:
  "check_directory (fetch(\<lparr>target = b, via = m, redirect = d\<rparr> := x)) b = check_directory fetch b"
  by (simp add: check_directory_def)

lemma scans_other_request:
  "foldl (probe_admin (fetch(\<lparr>target = b, via = m, redirect = d\<rparr> := x)) b) [] adminPaths =
     foldl (probe_admin fetch b) [] adminPaths"
  "foldl (probe_file (fetch(\<lparr>target = b, via = m, redirect = d\<rparr> := x)) b) [] sensitiveFilePaths =
     foldl (probe_file fetch b) [] sensitiveFilePaths"
proof -
  have "\<forall>p \<in> set adminPaths. p \<noteq> []"
    by (simp add: adminPaths_def)
  then show "foldl (probe_admin (fetch(\<lparr>target = b, via = m, redirect = d\<rparr> := x)) b) [] adminPaths =
     foldl (probe_admin fetch b) [] adminPaths"
    by (intro foldl_cong) (auto simp: probe_admin_other_request)
  have "\<forall>p \<in> set sensitiveFilePaths. p \<noteq> []"
    by (simp add: sensitiveFilePaths_def)
  then show "foldl (probe_file (fetch(\<lparr>target = b, via = m, redirect = d\<rparr> := x)) b) [] sensitiveFilePaths =
     foldl (probe_file fetch b) [] sensitiveFilePaths"
    by (intro foldl_cong) (auto simp: probe_file_other_request)
qed

text \<open>
  Claim C5. When the header request is rejected, \<open>checkSecurityHeaders\<close> still resolves,
  with the five header fields \<open>null\<close>, and with the vulnerabilities it finds when the
  header request is answered, whatever the answer: the three scans do not depend on it.
\<close>

theorem header_failure_is_absorbed:
  assumes "fetch \<lparr>target = ''https://'' @ host, via = HEAD, redirect = Follow\<rparr> = Inl e"
  shows "\<exists>r. checkSecurityHeaders fetch host = Inr r \<and>
           strictTransportSecurity (headers r) = None \<and>
           xFrameOptions (headers r) = None \<and>
           xXssProtection (headers r) = None \<and>
           contentSecurityPolicy (headers r) = None \<and>
           xContentTypeOptions (headers r) = None \<and>
           (\<forall>response. \<exists>r'.
              checkSecurityHeaders
                (fetch(\<lparr>target = ''https://'' @ host, via = HEAD, redirect = Follow\<rparr> := Inr response)) host = Inr r' \<and>
              vulnerabilities r' = vulnerabilities r)"
  using assms
  by (simp add: checkSecurityHeaders_def Let_def check_headers_def no_headers_def
      scans_other_request check_directory_other_request)

theorem header_failure_is_absorbed_witness:
  "flaky_site \<lparr>target = ''https://'' @ ''example.com'', via = HEAD, redirect = Follow\<rparr> =
     Inl (TypeError ''Failed to fetch'') \<and>
   (\<exists>r. checkSecurityHeaders flaky_site ''example.com'' = Inr r \<and>
      headers r = no_headers \<and>
      map url (adminUrls (vulnerabilities r)) = [''/admin'', ''/login''] \<and>
      directoryIndexing (vulnerabilities r) \<and>
      map file' (sensitiveFiles (vulnerabilities r)) = [''/.env'', ''/robots.txt''])"
proof -
  have rejected: "flaky_site \<lparr>target = ''https://'' @ ''example.com'', via = HEAD, redirect = Follow\<rparr> =
      Inl (TypeError ''Failed to fetch'')"
    by (simp add: flaky_site_def)
  show ?thesis
    using rejected header_failure_is_absorbed [of flaky_site "''example.com''", OF rejected]
    by (simp add: flaky_run)
qed

subsection \<open>The polling loop\<close>












end
